theory Spec2Isabelle
  imports Complex_Main
begin

section \<open>Malaria analyzer backend: \<open>backend/app.py\<close>\<close>

text \<open>
  The Flask application is modelled function by function. Exceptions are values of
  \<open>py_error\<close>, a fallible function returns \<open>py_error + 'a\<close> with \<open>Inl\<close> for the
  raised exception. Python strings are HOL strings, JSON-shaped dictionaries are
  association lists in the order of the dictionary literal, and floats are real numbers:
  arithmetic on confidences is exact and IEEE rounding is not modelled.
\<close>

subsection \<open>Exceptions and fallible primitives\<close>

datatype py_error = IndexError | ZeroDivisionError | OSError

text \<open>\<open>xs[i]\<close> for a non-negative index: out of range raises IndexError.\<close>

definition getitem :: "'a list \<Rightarrow> nat \<Rightarrow> py_error + 'a" where
  "getitem xs i = (if i < length xs then Inr (xs ! i) else Inl IndexError)"

text \<open>\<open>x / n\<close> with a float numerator and an integer length as the divisor.\<close>

definition truediv :: "real \<Rightarrow> nat \<Rightarrow> py_error + real" where
  "truediv x n = (if n = 0 then Inl ZeroDivisionError else Inr (x / real n))"

subsection \<open>String operations used by the upload validator\<close>

text \<open>
  \<open>s.rsplit(sep, maxsplit)\<close> for a one-character separator: at most \<open>maxsplit\<close> splits
  are made, starting at the rightmost separator.
\<close>

fun rsplit :: "string \<Rightarrow> char \<Rightarrow> nat \<Rightarrow> string list" where
  "rsplit s sep 0 = [s]"
| "rsplit s sep (Suc n) =
     (if sep \<in> set s
      then rsplit (rev (tl (dropWhile (\<lambda>c. c \<noteq> sep) (rev s)))) sep n
             @ [rev (takeWhile (\<lambda>c. c \<noteq> sep) (rev s))]
      else [s])"

text \<open>
  \<open>s.lower()\<close>. The letters \<open>A\<close> to \<open>Z\<close> (codes 65 to 90) move to \<open>a\<close> to \<open>z\<close>; every
  other character is kept. Python also lowers letters outside ASCII, none of them to an
  ASCII \<open>p\<close>, \<open>d\<close> or \<open>f\<close>, so comparisons with \<open>''pdf''\<close> are not affected.
\<close>

definition lower_char :: "char \<Rightarrow> char" where
  "lower_char c =
     (let n = (of_char c :: nat) in if 65 \<le> n \<and> n \<le> 90 then char_of (n + 32) else c)"

definition lower :: "string \<Rightarrow> string" where
  "lower s = map lower_char s"

subsection \<open>Configuration\<close>

text \<open>\<open>app.config['ALLOWED_EXTENSIONS'] = {'pdf'}\<close>\<close>

definition ALLOWED_EXTENSIONS :: "string set" where
  "ALLOWED_EXTENSIONS = {''pdf''}"

subsection \<open>Upload validator\<close>

text \<open>
  \<open>return '.' in filename and filename.rsplit('.', 1)[1].lower() in ALLOWED_EXTENSIONS\<close>.
  The conjunction is short-circuit: the right operand, with its indexing, is evaluated
  only when the filename contains a dot.
\<close>

definition allowed_file :: "string \<Rightarrow> py_error + bool" where
  "allowed_file filename =
     (if CHR ''.'' \<in> set filename
      then (case getitem (rsplit filename CHR ''.'' 1) 1 of
              Inl e \<Rightarrow> Inl e
            | Inr ext \<Rightarrow> Inr (lower ext \<in> ALLOWED_EXTENSIONS))
      else Inr False)"

subsection \<open>JSON values and dictionaries\<close>

datatype json =
    JNone
  | JBool bool
  | JInt int
  | JFloat real
  | JStr string
  | JList "json list"
  | JDict "(string \<times> json) list"

type_synonym dict = "(string \<times> json) list"

text \<open>\<open>d.get(k)\<close> on the dictionary a fallible call returned; nothing when it raised.\<close>

definition result_get :: "py_error + dict \<Rightarrow> string \<Rightarrow> json option" where
  "result_get res k = (case res of Inl e \<Rightarrow> None | Inr d \<Rightarrow> map_of d k)"

subsection \<open>The library \<open>random\<close>\<close>

text \<open>
  The generator is not part of the repository. Each call of the library is modelled as a
  function of the raw number \<open>r\<close> the generator produces for that call, so that a
  statement about every \<open>r\<close> is a statement about every outcome of the call.
  \<^item> \<open>random.randint(a, b)\<close> returns an integer \<open>N\<close> with \<open>a \<le> N \<le> b\<close> (for \<open>a \<le> b\<close>, the
    only way the source calls it);
  \<^item> \<open>random.choice(seq)\<close> returns an element of a non-empty sequence (the source passes
    list literals only);
  \<^item> \<open>random.random()\<close> returns a float \<open>k / 2^53\<close> with \<open>0 \<le> k < 2^53\<close>;
  \<^item> \<open>random.uniform(a, b)\<close> is \<open>a + (b - a) * random()\<close>.
\<close>

definition random_randint :: "int \<Rightarrow> int \<Rightarrow> nat \<Rightarrow> int" where
  "random_randint a b r = a + int r mod (b - a + 1)"

definition random_choice :: "'a list \<Rightarrow> nat \<Rightarrow> 'a" where
  "random_choice seq r = seq ! (r mod length seq)"

definition random_random :: "nat \<Rightarrow> real" where
  "random_random r = real (r mod 9007199254740992) / 9007199254740992"

definition random_uniform :: "real \<Rightarrow> real \<Rightarrow> nat \<Rightarrow> real" where
  "random_uniform a b r = a + (b - a) * random_random r"

subsection \<open>Image extraction stub\<close>

text \<open>The dictionary \<open>{"page": 0, "index": i, "bytes": b"placeholder"}\<close>.\<close>

record image_record =
  page :: int
  index :: int
  bytes :: string

text \<open>
  \<open>return [{"page": 0, "index": i, "bytes": b"placeholder"}
            for i in range(random.randint(1, 5))]\<close>;
  \<open>r\<close> is the raw draw behind \<open>random.randint\<close>. The path is not read.
\<close>

definition extract_images_from_pdf :: "string \<Rightarrow> nat \<Rightarrow> image_record list" where
  "extract_images_from_pdf pdf_path r =
     [\<lparr>page = 0, index = int i, bytes = ''placeholder''\<rparr>.
        i \<leftarrow> [0 ..< nat (random_randint 1 5 r)]]"

subsection \<open>Per-image classifier stub\<close>

text \<open>
  The dictionary with the keys \<open>parasite_detected\<close>, \<open>parasite_type\<close> (a string or
  \<open>None\<close>) and \<open>confidence\<close>.
\<close>

record detection_result =
  parasite_detected :: bool
  parasite_type :: "string option"
  confidence :: real

text \<open>The raw draws behind the four library calls of one classification.\<close>

record image_draws =
  detected_draw :: nat
  gate_draw :: nat
  type_draw :: nat
  confidence_draw :: nat

definition SPECIES :: "string list" where
  "SPECIES = [''P. falciparum'', ''P. vivax'', ''P. ovale'', ''P. malariae'']"

definition analyze_image_for_malaria :: "string \<Rightarrow> image_draws \<Rightarrow> detection_result" where
  "analyze_image_for_malaria image_data dr =
     \<lparr>parasite_detected = random_choice [True, False] (detected_draw dr),
      parasite_type =
        (if random_random (gate_draw dr) > 3 / 10
         then Some (random_choice SPECIES (type_draw dr))
         else None),
      confidence = random_uniform (7 / 10) (99 / 100) (confidence_draw dr)\<rparr>"

subsection \<open>Diagnosis aggregation\<close>

text \<open>Truth value of an optional string: \<open>None\<close> and the empty string are false.\<close>

definition truthy :: "string option \<Rightarrow> bool" where
  "truthy t = (case t of None \<Rightarrow> False | Some s \<Rightarrow> s \<noteq> [])"

text \<open>\<open>sum(xs)\<close>: the additions run from the left, starting at 0.\<close>

definition py_sum :: "real list \<Rightarrow> real" where
  "py_sum xs = foldl (+) 0 xs"

definition json_of_label :: "string option \<Rightarrow> json" where
  "json_of_label t = (case t of None \<Rightarrow> JNone | Some s \<Rightarrow> JStr s)"

text \<open>\<open>positive_count = sum(1 for r in image_results if r["parasite_detected"])\<close>\<close>

definition positive_count :: "detection_result list \<Rightarrow> int" where
  "positive_count image_results = sum_list [1. r \<leftarrow> image_results, parasite_detected r]"

text \<open>
  \<open>parasites = [r["parasite_type"] for r in image_results
                 if r["parasite_detected"] and r["parasite_type"]]\<close>
\<close>

definition parasites :: "detection_result list \<Rightarrow> string option list" where
  "parasites image_results =
     [parasite_type r. r \<leftarrow> image_results, parasite_detected r \<and> truthy (parasite_type r)]"

text \<open>
  \<open>unique_parasites = list(set(parasites))\<close>: every distinct element once. Python leaves
  the order of the list open; the model lists the elements in one order and no statement
  below depends on it.
\<close>

definition unique_parasites :: "detection_result list \<Rightarrow> string option list" where
  "unique_parasites image_results = remdups (parasites image_results)"

text \<open>\<open>confidences = [r["confidence"] for r in image_results if r["parasite_detected"]]\<close>\<close>

definition confidences :: "detection_result list \<Rightarrow> real list" where
  "confidences image_results = [confidence r. r \<leftarrow> image_results, parasite_detected r]"

text \<open>\<open>avg_confidence = sum(confidences) / len(confidences) if confidences else 0\<close>\<close>

definition avg_confidence :: "detection_result list \<Rightarrow> py_error + json" where
  "avg_confidence image_results =
     (if confidences image_results \<noteq> []
      then (case truediv (py_sum (confidences image_results))
                         (length (confidences image_results)) of
              Inl e \<Rightarrow> Inl e
            | Inr q \<Rightarrow> Inr (JFloat q))
      else Inr (JInt 0))"

text \<open>Lines 96 to 124 of \<open>analyze_malaria_pdf\<close>: the diagnosis from the image results.\<close>

definition aggregate_results :: "detection_result list \<Rightarrow> py_error + dict" where
  "aggregate_results image_results =
     (let total_count = int (length image_results) in
      if positive_count image_results > 0
      then (case avg_confidence image_results of
              Inl e \<Rightarrow> Inl e
            | Inr avg \<Rightarrow>
                Inr [(''diagnosis'', JStr ''Positive''),
                     (''parasites_detected'',
                        JList (map json_of_label (unique_parasites image_results))),
                     (''confidence'', avg),
                     (''parasite_count'', JInt (positive_count image_results)),
                     (''images_analyzed'', JInt total_count)])
      else Inr [(''diagnosis'', JStr ''Negative''),
                (''confidence'', JFloat (85 / 100)),
                (''parasite_count'', JInt 0),
                (''images_analyzed'', JInt total_count)])"

text \<open>
  The loop \<open>for image in images: image_results.append(analyze_image_for_malaria(...))\<close>;
  \<open>draws i\<close> holds the raw draws of the \<open>i\<close>-th call of the classifier and \<open>i\<close> counts
  the calls made so far.
\<close>

fun analyze_each :: "image_record list \<Rightarrow> (nat \<Rightarrow> image_draws) \<Rightarrow> nat \<Rightarrow> detection_result list" where
  "analyze_each [] draws i = []"
| "analyze_each (img # images) draws i =
     analyze_image_for_malaria (bytes img) (draws i) # analyze_each images draws (Suc i)"

text \<open>
  Lines 84 to 124: the body of \<open>analyze_malaria_pdf\<close> once the images are extracted.
  The \<open>except\<close> clause prints the exception and raises it again, so an error of the
  body is the error of the function.
\<close>

definition analyze_images :: "image_record list \<Rightarrow> (nat \<Rightarrow> image_draws) \<Rightarrow> py_error + dict" where
  "analyze_images images draws =
     (if images = []
      then Inr [(''diagnosis'', JStr ''Inconclusive''),
                (''error'', JStr ''No images found in PDF'')]
      else aggregate_results (analyze_each images draws 0))"

text \<open>The raw draws of one request: one for the image count, four for each image.\<close>

record rng =
  count_draw :: nat
  image_draw :: "nat \<Rightarrow> image_draws"

definition analyze_malaria_pdf :: "string \<Rightarrow> rng \<Rightarrow> py_error + dict" where
  "analyze_malaria_pdf pdf_path rnd =
     analyze_images (extract_images_from_pdf pdf_path (count_draw rnd)) (image_draw rnd)"

text \<open>The same draws for every image: a generator for concrete runs.\<close>

definition fixed_draws :: "image_draws \<Rightarrow> nat \<Rightarrow> image_draws" where
  "fixed_draws dr i = dr"

subsection \<open>HTTP endpoint \<open>POST /api/analyze\<close>\<close>

text \<open>
  An uploaded file (werkzeug's \<open>FileStorage\<close>): the name the client sent and the bytes.
  Its truth value is that of its filename.
\<close>

record file_storage =
  filename :: string
  stream :: string

definition file_truthy :: "file_storage \<Rightarrow> bool" where
  "file_truthy file = (filename file \<noteq> [])"

text \<open>\<open>request.files\<close>, from the field name to the uploaded file.\<close>

record request =
  files :: "string \<rightharpoonup> file_storage"

text \<open>
  The upload directory: the stored files by path, and the paths a write succeeds at.
  \<open>file.save(path)\<close> stores the bytes or raises OSError and stores nothing.
\<close>

record disk =
  contents :: "string \<rightharpoonup> string"
  writable :: "string \<Rightarrow> bool"

definition save :: "file_storage \<Rightarrow> string \<Rightarrow> disk \<Rightarrow> py_error + disk" where
  "save file path dsk =
     (if writable dsk path
      then Inr (dsk\<lparr>contents := (contents dsk)(path \<mapsto> stream file)\<rparr>)
      else Inl OSError)"

text \<open>
  What the process takes from outside the repository: the value of
  \<open>app.config['UPLOAD_FOLDER']\<close>, which depends on where the file is installed, and
  werkzeug's \<open>secure_filename\<close>.
\<close>

record env =
  UPLOAD_FOLDER :: string
  secure_filename :: "string \<Rightarrow> string"

text \<open>\<open>os.path.join(a, b)\<close> on POSIX paths.\<close>

definition path_join :: "string \<Rightarrow> string \<Rightarrow> string" where
  "path_join a b =
     (if b \<noteq> [] \<and> hd b = CHR ''/'' then b
      else if a = [] \<or> last a = CHR ''/'' then a @ b
      else a @ ''/'' @ b)"

text \<open>\<open>str(e)\<close> for the exceptions of the model.\<close>

definition str_error :: "py_error \<Rightarrow> string" where
  "str_error e =
     (case e of
        IndexError \<Rightarrow> ''list index out of range''
      | ZeroDivisionError \<Rightarrow> ''float division by zero''
      | OSError \<Rightarrow> ''OSError'')"

record response =
  status :: nat
  body :: json

definition jsonify_error :: "string \<Rightarrow> nat \<Rightarrow> response" where
  "jsonify_error msg code = \<lparr>status = code, body = JDict [(''error'', JStr msg)]\<rparr>"

text \<open>
  The view function. The result is the response, or the exception that leaves the view
  (raised outside its \<open>try\<close> block), together with the upload directory afterwards.
\<close>

definition analyze_pdf :: "env \<Rightarrow> request \<Rightarrow> rng \<Rightarrow> disk \<Rightarrow> (py_error + response) \<times> disk" where
  "analyze_pdf cfg req rnd dsk =
     (case files req ''file'' of
        None \<Rightarrow> (Inr (jsonify_error ''No file part'' 400), dsk)
      | Some file \<Rightarrow>
          if filename file = [] then (Inr (jsonify_error ''No file selected'' 400), dsk)
          else
            (case (if file_truthy file then allowed_file (filename file) else Inr False) of
               Inl e \<Rightarrow> (Inl e, dsk)
             | Inr True \<Rightarrow>
                 (let fname = secure_filename cfg (filename file);
                      filepath = path_join (UPLOAD_FOLDER cfg) fname
                  in case save file filepath dsk of
                       Inl e \<Rightarrow> (Inl e, dsk)
                     | Inr dsk' \<Rightarrow>
                         (case analyze_malaria_pdf filepath rnd of
                            Inr results \<Rightarrow>
                              (Inr \<lparr>status = 200,
                                    body = JDict [(''success'', JBool True),
                                                  (''results'', JDict results)]\<rparr>,
                               dsk')
                          | Inl e \<Rightarrow>
                              (Inr (jsonify_error (''Analysis failed: '' @ str_error e) 500),
                               dsk')))
             | Inr False \<Rightarrow>
                 (Inr (jsonify_error ''File type not allowed. Please upload a PDF file.'' 400),
                  dsk)))"

subsection \<open>Sample inputs\<close>

text \<open>Concrete draws and detection results on which the statements below are run.\<close>

definition sample_draws :: image_draws where
  "sample_draws = \<lparr>detected_draw = 0, gate_draw = 0, type_draw = 0, confidence_draw = 0\<rparr>"

definition mixed_results :: "detection_result list" where
  "mixed_results =
     [\<lparr>parasite_detected = True, parasite_type = Some ''P. vivax'', confidence = 8 / 10\<rparr>,
      \<lparr>parasite_detected = False, parasite_type = Some ''P. ovale'', confidence = 9 / 10\<rparr>,
      \<lparr>parasite_detected = True, parasite_type = None, confidence = 9 / 10\<rparr>,
      \<lparr>parasite_detected = True, parasite_type = Some ''P. vivax'', confidence = 7 / 10\<rparr>]"

definition clean_results :: "detection_result list" where
  "clean_results =
     [\<lparr>parasite_detected = False, parasite_type = Some ''P. ovale'', confidence = 9 / 10\<rparr>,
      \<lparr>parasite_detected = False, parasite_type = None, confidence = 3 / 4\<rparr>]"

text \<open>
  Requests with a PDF, with another file type, with an empty filename and with no file
  field; an installation whose \<open>secure_filename\<close> keeps the name; an upload directory
  that is empty and writable; a generator that draws two images.
\<close>

definition pdf_request :: request where
  "pdf_request = \<lparr>files = [''file'' \<mapsto> \<lparr>filename = ''report.pdf'', stream = ''%PDF-1.4''\<rparr>]\<rparr>"

definition exe_request :: request where
  "exe_request = \<lparr>files = [''file'' \<mapsto> \<lparr>filename = ''report.exe'', stream = ''MZ''\<rparr>]\<rparr>"

definition unnamed_request :: request where
  "unnamed_request = \<lparr>files = [''file'' \<mapsto> \<lparr>filename = [], stream = []\<rparr>]\<rparr>"

definition empty_request :: request where
  "empty_request = \<lparr>files = Map.empty\<rparr>"

definition sample_env :: env where
  "sample_env = \<lparr>UPLOAD_FOLDER = ''/srv/backend/uploads'', secure_filename = id\<rparr>"

definition empty_disk :: disk where
  "empty_disk = \<lparr>contents = Map.empty, writable = top\<rparr>"

definition sample_rng :: rng where
  "sample_rng = \<lparr>count_draw = 6, image_draw = fixed_draws sample_draws\<rparr>"

section \<open>Properties of the upload validator\<close>

subsection \<open>Splitting at the last separator\<close>

lemma rsplit_once:
  "sep \<in> set s \<Longrightarrow>
   rsplit s sep 1 = [rev (tl (dropWhile (\<lambda>c. c \<noteq> sep) (rev s))),
                     rev (takeWhile (\<lambda>c. c \<noteq> sep) (rev s))]"
  by simp

lemma rsplit_no_sep: "sep \<notin> set s \<Longrightarrow> rsplit s sep 1 = [s]"
  by simp

lemma last_part_of_split:
  assumes "s = stem @ [sep] @ ext" and "sep \<notin> set ext"
  shows "rev (takeWhile (\<lambda>c. c \<noteq> sep) (rev s)) = ext"
proof -
  have "rev s = rev ext @ sep # rev stem"
    using assms(1) by simp
  moreover have "\<forall>c \<in> set (rev ext). c \<noteq> sep"
    using assms(2) by auto
  then have "takeWhile (\<lambda>c. c \<noteq> sep) (rev ext @ sep # rev stem)
      = rev ext @ takeWhile (\<lambda>c. c \<noteq> sep) (sep # rev stem)"
    by (intro takeWhile_append2) simp
  ultimately have "takeWhile (\<lambda>c. c \<noteq> sep) (rev s) = rev ext"
    by simp
  then show ?thesis by simp
qed

lemma split_at_last:
  assumes "sep \<in> set s"
  shows "s = rev (tl (dropWhile (\<lambda>c. c \<noteq> sep) (rev s))) @ [sep]
               @ rev (takeWhile (\<lambda>c. c \<noteq> sep) (rev s))"
    and "sep \<notin> set (rev (takeWhile (\<lambda>c. c \<noteq> sep) (rev s)))"
proof -
  let ?P = "\<lambda>c. c \<noteq> sep"
  let ?d = "dropWhile ?P (rev s)"
  from assms have ne: "?d \<noteq> []"
    by simp
  then have "\<not> ?P (hd ?d)"
    by (rule hd_dropWhile)
  with ne have d: "?d = sep # tl ?d"
    by (cases ?d) auto
  have "rev s = takeWhile ?P (rev s) @ ?d"
    by simp
  then have "rev s = takeWhile ?P (rev s) @ sep # tl ?d"
    using d by metis
  then have "rev (rev s) = rev (takeWhile ?P (rev s) @ sep # tl ?d)"
    by (rule arg_cong)
  then show "s = rev (tl ?d) @ [sep] @ rev (takeWhile ?P (rev s))"
    by simp
  show "sep \<notin> set (rev (takeWhile ?P (rev s)))"
    using set_takeWhileD by fastforce
qed

lemma allowed_file_dot:
  "CHR ''.'' \<in> set f \<Longrightarrow>
   allowed_file f =
     Inr (lower (rev (takeWhile (\<lambda>c. c \<noteq> CHR ''.'') (rev f))) \<in> ALLOWED_EXTENSIONS)"
  by (simp add: allowed_file_def getitem_def)

lemma allowed_file_no_dot: "CHR ''.'' \<notin> set f \<Longrightarrow> allowed_file f = Inr False"
  by (simp add: allowed_file_def)

lemma of_char_lower:
  "(of_char (lower_char c) :: nat) =
     (if 65 \<le> (of_char c :: nat) \<and> (of_char c :: nat) \<le> 90 then of_char c + 32
      else of_char c)"
  by (simp add: lower_char_def Let_def)

lemma char_eq_code: "(a = b) = ((of_char a :: nat) = of_char b)"
  by simp

lemma lower_char_p: "lower_char c = CHR ''p'' \<longleftrightarrow> c \<in> {CHR ''p'', CHR ''P''}"
  unfolding insert_iff empty_iff char_eq_code [of _ "CHR ''p''"] char_eq_code [of _ "CHR ''P''"] of_char_lower
  by auto

lemma lower_char_d: "lower_char c = CHR ''d'' \<longleftrightarrow> c \<in> {CHR ''d'', CHR ''D''}"
  unfolding insert_iff empty_iff char_eq_code [of _ "CHR ''d''"] char_eq_code [of _ "CHR ''D''"] of_char_lower
  by auto

lemma lower_char_f: "lower_char c = CHR ''f'' \<longleftrightarrow> c \<in> {CHR ''f'', CHR ''F''}"
  unfolding insert_iff empty_iff char_eq_code [of _ "CHR ''f''"] char_eq_code [of _ "CHR ''F''"] of_char_lower
  by auto

lemma lower_pdf:
  "lower ext = ''pdf'' \<longleftrightarrow>
   (\<exists>a b c. ext = [a, b, c] \<and> a \<in> {CHR ''p'', CHR ''P''} \<and> b \<in> {CHR ''d'', CHR ''D''}
      \<and> c \<in> {CHR ''f'', CHR ''F''})"
  unfolding lower_def map_eq_Cons_conv lower_char_p [symmetric] lower_char_d [symmetric] lower_char_f [symmetric]
  by auto

subsection \<open>Acceptance\<close>

text \<open>
  Claim C8. For every filename, \<open>allowed_file\<close> returns true exactly when the filename has
  the form \<open>stem.ext\<close> with no dot in \<open>ext\<close> (so \<open>ext\<close> is what follows the last dot) and
  the lowercased \<open>ext\<close> is in the accepted-extension set. That set is exactly \<open>{pdf}\<close>, and
  an extension is accepted exactly when it spells \<open>pdf\<close> in any mix of upper and lower
  case.
\<close>

theorem allowed_file_iff:
  "allowed_file f =
     Inr (\<exists>stem ext. f = stem @ ''.'' @ ext \<and> CHR ''.'' \<notin> set ext
            \<and> lower ext \<in> ALLOWED_EXTENSIONS)
   \<and> ALLOWED_EXTENSIONS = {''pdf''}
   \<and> (lower e \<in> ALLOWED_EXTENSIONS \<longleftrightarrow>
        (\<exists>a b c. e = [a, b, c] \<and> a \<in> {CHR ''p'', CHR ''P''} \<and> b \<in> {CHR ''d'', CHR ''D''}
           \<and> c \<in> {CHR ''f'', CHR ''F''}))"
proof (intro conjI)
  let ?last = "rev (takeWhile (\<lambda>c. c \<noteq> CHR ''.'') (rev f))"
  let ?R = "\<exists>stem ext. f = stem @ ''.'' @ ext \<and> CHR ''.'' \<notin> set ext
              \<and> lower ext \<in> ALLOWED_EXTENSIONS"
  show "allowed_file f = Inr ?R"
  proof (cases "CHR ''.'' \<in> set f")
    case True
    have "?R \<longleftrightarrow> lower ?last \<in> ALLOWED_EXTENSIONS"
    proof
      assume ?R
      then obtain stem ext where f: "f = stem @ [CHR ''.''] @ ext"
        and nd: "CHR ''.'' \<notin> set ext" and ok: "lower ext \<in> ALLOWED_EXTENSIONS"
        by auto
      from last_part_of_split [OF f nd] ok show "lower ?last \<in> ALLOWED_EXTENSIONS"
        by simp
    next
      assume ok: "lower ?last \<in> ALLOWED_EXTENSIONS"
      from split_at_last [OF True] ok show ?R
        by (metis)
    qed
    with allowed_file_dot [OF True] show ?thesis
      by simp
  next
    case False
    then have "\<not> ?R" by auto
    with allowed_file_no_dot [OF False] show ?thesis
      by simp
  qed
  show "ALLOWED_EXTENSIONS = {''pdf''}"
    by (simp add: ALLOWED_EXTENSIONS_def)
  show "lower e \<in> ALLOWED_EXTENSIONS \<longleftrightarrow>
        (\<exists>a b c. e = [a, b, c] \<and> a \<in> {CHR ''p'', CHR ''P''} \<and> b \<in> {CHR ''d'', CHR ''D''}
           \<and> c \<in> {CHR ''f'', CHR ''F''})"
    using lower_pdf [of e] by (simp add: ALLOWED_EXTENSIONS_def)
qed

text \<open>The validator on a mixed-case PDF name, on another extension, and without a dot.\<close>

theorem allowed_file_iff_witness:
  "allowed_file ''report.PdF'' = Inr True \<and> allowed_file ''report.exe'' = Inr False
   \<and> allowed_file ''archive.pdf.zip'' = Inr False \<and> allowed_file ''pdf'' = Inr False"
  using allowed_file_iff [of "''report.PdF''"]
  by (simp add: allowed_file_def getitem_def lower_def lower_char_def ALLOWED_EXTENSIONS_def char_eq_code)

text \<open>
  Claim C10. For every string the validator returns a boolean and raises nothing. When
  the filename contains a dot the right-split has exactly two parts, so the read at
  index 1 succeeds; when it contains none, the split is not indexed and the result is
  false.
\<close>

theorem allowed_file_total:
  "(\<exists>b. allowed_file f = Inr b)
   \<and> (CHR ''.'' \<in> set f \<longrightarrow>
        length (rsplit f CHR ''.'' 1) = 2 \<and> (\<exists>ext. getitem (rsplit f CHR ''.'' 1) 1 = Inr ext))
   \<and> (CHR ''.'' \<notin> set f \<longrightarrow> allowed_file f = Inr False)"
proof (cases "CHR ''.'' \<in> set f")
  case True
  then show ?thesis
    using allowed_file_dot [OF True] by (simp add: getitem_def)
next
  case False
  then show ?thesis
    using allowed_file_no_dot [OF False] by auto
qed

text \<open>A name with a dot and a name without one.\<close>

theorem allowed_file_total_witness:
  "CHR ''.'' \<in> set ''scan.PDF'' \<and> length (rsplit ''scan.PDF'' CHR ''.'' 1) = 2
   \<and> getitem (rsplit ''scan.PDF'' CHR ''.'' 1) 1 = Inr ''PDF''
   \<and> allowed_file ''scan.PDF'' = Inr True
   \<and> CHR ''.'' \<notin> set ''README'' \<and> allowed_file ''README'' = Inr False"
  using allowed_file_total [of "''scan.PDF''"] allowed_file_total [of "''README''"]
  by (simp add: allowed_file_def getitem_def lower_def lower_char_def ALLOWED_EXTENSIONS_def char_eq_code)

section \<open>Properties of the diagnosis aggregation\<close>

subsection \<open>The comprehensions as filters\<close>

lemma positive_count_length:
  "positive_count rs = int (length (filter parasite_detected rs))"
  by (induction rs) (simp_all add: positive_count_def)

lemma foldl_plus_sum_list: "foldl (+) a xs = a + sum_list (xs :: real list)"
  by (induction xs arbitrary: a) simp_all

lemma py_sum_sum_list: "py_sum xs = sum_list xs"
  by (simp add: py_sum_def foldl_plus_sum_list)

lemma confidences_filter:
  "confidences rs = map confidence (filter parasite_detected rs)"
  by (induction rs) (simp_all add: confidences_def)



lemma avg_confidence_positive:
  assumes "0 < length (filter parasite_detected rs)"
  shows "avg_confidence rs =
           Inr (JFloat (sum_list (map confidence (filter parasite_detected rs))
                          / real (length (filter parasite_detected rs))))"
  using assms
  by (simp add: avg_confidence_def confidences_filter truediv_def py_sum_sum_list)

lemma avg_confidence_total: "\<exists>v. avg_confidence rs = Inr v"
  by (simp add: avg_confidence_def truediv_def)

lemma aggregate_positive:
  assumes "0 < length (filter parasite_detected rs)"
  shows "aggregate_results rs =
     Inr [(''diagnosis'', JStr ''Positive''),
          (''parasites_detected'', JList (map json_of_label (unique_parasites rs))),
          (''confidence'',
             JFloat (sum_list (map confidence (filter parasite_detected rs))
                       / real (length (filter parasite_detected rs)))),
          (''parasite_count'', JInt (int (length (filter parasite_detected rs)))),
          (''images_analyzed'', JInt (int (length rs)))]"
  using assms
  by (simp add: aggregate_results_def positive_count_length avg_confidence_positive)

lemma aggregate_negative:
  assumes "length (filter parasite_detected rs) = 0"
  shows "aggregate_results rs =
     Inr [(''diagnosis'', JStr ''Negative''),
          (''confidence'', JFloat (85 / 100)),
          (''parasite_count'', JInt 0),
          (''images_analyzed'', JInt (int (length rs)))]"
  using assms
  by (simp add: aggregate_results_def positive_count_length)


lemma length_analyze_each: "length (analyze_each images draws i) = length images"
  by (induction images arbitrary: i) simp_all

lemma aggregate_images_analyzed:
  "result_get (aggregate_results rs) ''images_analyzed'' = Some (JInt (int (length rs)))"
proof (cases "0 < length (filter parasite_detected rs)")
  case True
  then show ?thesis
    by (simp add: aggregate_positive result_get_def)
next
  case False
  then have "length (filter parasite_detected rs) = 0"
    by simp
  then show ?thesis
    by (simp add: aggregate_negative result_get_def)
qed

subsection \<open>Labels the classifier can draw\<close>

text \<open>
  Every label of a classification is one of the four species names, so no result the
  pipeline aggregates carries the empty string as its label.
\<close>

lemma random_choice_member: "seq \<noteq> [] \<Longrightarrow> random_choice seq r \<in> set seq"
  by (simp add: random_choice_def)

lemma classifier_label:
  "parasite_type (analyze_image_for_malaria image_data dr) \<in> insert None (Some ` set SPECIES)"
  using random_choice_member [of SPECIES "type_draw dr"]
  by (simp add: analyze_image_for_malaria_def SPECIES_def)

lemma classifier_label_nonempty:
  "parasite_type (analyze_image_for_malaria image_data dr) \<noteq> Some []"
  using classifier_label [of image_data dr] by (auto simp: SPECIES_def)

lemma analyze_each_labels:
  "\<forall>r\<in>set (analyze_each images draws i). parasite_type r \<noteq> Some []"
  by (induction images arbitrary: i) (simp_all add: classifier_label_nonempty)

subsection \<open>Positive diagnosis\<close>



subsection \<open>Negative diagnosis\<close>

text \<open>
  Claim C2. For every non-empty sequence of detection results without a detected entry,
  the aggregation returns the verdict Negative, the confidence 0.85, the positive count 0
  and, as images analyzed, the length of the sequence.
\<close>

theorem negative_diagnosis:
  assumes "rs \<noteq> []" and "\<forall>r\<in>set rs. \<not> parasite_detected r"
  shows "aggregate_results rs =
     Inr [(''diagnosis'', JStr ''Negative''),
          (''confidence'', JFloat (85 / 100)),
          (''parasite_count'', JInt 0),
          (''images_analyzed'', JInt (int (length rs)))]"
proof -
  from assms(2) have "filter parasite_detected rs = []"
    by (simp add: filter_empty_conv)
  then have "length (filter parasite_detected rs) = 0"
    by simp
  then show ?thesis
    by (rule aggregate_negative)
qed

text \<open>Two results, neither detected.\<close>

theorem negative_diagnosis_witness:
  "clean_results \<noteq> [] \<and> list_all (\<lambda>r. \<not> parasite_detected r) clean_results
   \<and> aggregate_results clean_results =
       Inr [(''diagnosis'', JStr ''Negative''),
            (''confidence'', JFloat (85 / 100)),
            (''parasite_count'', JInt 0),
            (''images_analyzed'', JInt 2)]"
proof -
  have h1: "clean_results \<noteq> []"
    by (simp add: clean_results_def)
  have h2: "\<forall>r\<in>set clean_results. \<not> parasite_detected r"
    by (simp add: clean_results_def)
  have l: "int (length clean_results) = 2"
    by (simp add: clean_results_def)
  from h2 have "list_all (\<lambda>r. \<not> parasite_detected r) clean_results"
    by (simp add: list_all_iff)
  with negative_diagnosis [OF h1 h2] h1 show ?thesis
    unfolding l by simp
qed

subsection \<open>No images\<close>

text \<open>
  Claim C3. For the empty list of extracted images the diagnosis is Inconclusive with the
  note \<open>No images found in PDF\<close>, whatever the random draws are.
\<close>

theorem no_images_inconclusive:
  "analyze_images [] draws =
     Inr [(''diagnosis'', JStr ''Inconclusive''), (''error'', JStr ''No images found in PDF'')]"
  by (simp add: analyze_images_def)

subsection \<open>Images analyzed\<close>

text \<open>
  Claim C4, as stated, fails in the Inconclusive branch: the dictionary returned for the
  empty list has the keys \<open>diagnosis\<close> and \<open>error\<close> only, so it carries no
  \<open>images_analyzed\<close> entry, in particular not the entry 0.
\<close>

theorem images_analyzed_counterexample:
  "result_get (analyze_images ([] :: image_record list) (fixed_draws sample_draws))
     ''images_analyzed''
   \<noteq> Some (JInt (int (length ([] :: image_record list))))"
  by (simp add: analyze_images_def result_get_def)

text \<open>
  Claim C4, amended. For every non-empty list of images, that is in the Negative and the
  Positive branch, the diagnosis carries \<open>images_analyzed\<close> equal to the number of images;
  for the empty list the Inconclusive diagnosis carries no \<open>images_analyzed\<close> entry.
  The aggregation of any sequence of detection results reports the length of the sequence.
\<close>

theorem images_analyzed_total:
  "(images \<noteq> [] \<longrightarrow>
      result_get (analyze_images images draws) ''images_analyzed''
        = Some (JInt (int (length images))))
   \<and> result_get (analyze_images [] draws) ''images_analyzed'' = None
   \<and> result_get (aggregate_results rs) ''images_analyzed'' = Some (JInt (int (length rs)))"
  by (simp add: analyze_images_def aggregate_images_analyzed length_analyze_each)
     (simp add: result_get_def)

text \<open>Two extracted images give \<open>images_analyzed = 2\<close>.\<close>

theorem images_analyzed_total_witness:
  "extract_images_from_pdf ''scan.pdf'' 6 \<noteq> []
   \<and> result_get (analyze_images (extract_images_from_pdf ''scan.pdf'' 6) (fixed_draws sample_draws))
        ''images_analyzed'' = Some (JInt 2)"
proof -
  have e: "extract_images_from_pdf ''scan.pdf'' 6 =
             [\<lparr>page = 0, index = 0, bytes = ''placeholder''\<rparr>,
              \<lparr>page = 0, index = 1, bytes = ''placeholder''\<rparr>]"
    by (simp add: extract_images_from_pdf_def random_randint_def upt_rec)
  from images_analyzed_total [of "extract_images_from_pdf ''scan.pdf'' 6" "fixed_draws sample_draws"]
  show ?thesis
    unfolding e by simp
qed

subsection \<open>No failure\<close>

text \<open>
  Claim C7. The aggregation returns a dictionary and raises nothing, for every sequence of
  detection results and for every list of images including the empty one. Whenever the
  positive count is above zero the list of confidences is not empty, so the division that
  computes the mean has a non-zero divisor and does not raise ZeroDivisionError.
\<close>

theorem aggregation_total:
  "(\<exists>d. aggregate_results rs = Inr d)
   \<and> (\<exists>d. analyze_images images draws = Inr d)
   \<and> (0 < positive_count rs \<longrightarrow>
        confidences rs \<noteq> []
        \<and> (\<exists>q. truediv (py_sum (confidences rs)) (length (confidences rs)) = Inr q))"
proof (intro conjI impI)
  show agg: "\<exists>d. aggregate_results rs = Inr d" for rs
    using avg_confidence_total [of rs] by (auto simp: aggregate_results_def Let_def)
  show "\<exists>d. analyze_images images draws = Inr d"
    using agg by (simp add: analyze_images_def)
  assume "0 < positive_count rs"
  then have "0 < length (confidences rs)"
    by (simp add: positive_count_length confidences_filter)
  then show "confidences rs \<noteq> []"
    and "\<exists>q. truediv (py_sum (confidences rs)) (length (confidences rs)) = Inr q"
    by (simp_all add: truediv_def)
qed

text \<open>With three detected entries the mean divides by three.\<close>

theorem aggregation_total_witness:
  "0 < positive_count mixed_results \<and> confidences mixed_results = [8 / 10, 9 / 10, 7 / 10]
   \<and> truediv (py_sum (confidences mixed_results)) (length (confidences mixed_results))
       = Inr (8 / 10)"
  using aggregation_total [of mixed_results]
  by (simp add: mixed_results_def positive_count_def confidences_def truediv_def py_sum_def)

section \<open>Properties of the stubs\<close>

subsection \<open>The model of the random library\<close>

text \<open>
  The raw draw covers the outcomes the library documents and no others: \<open>randint\<close> stays
  in its range and reaches every value of it, \<open>random\<close> stays in the unit interval.
\<close>

lemma random_randint_range:
  assumes "a \<le> b"
  shows "a \<le> random_randint a b r \<and> random_randint a b r \<le> b"
proof -
  from assms have pos: "0 < b - a + 1"
    by simp
  from pos have "0 \<le> int r mod (b - a + 1)"
    by (rule pos_mod_sign)
  moreover from pos have "int r mod (b - a + 1) < b - a + 1"
    by (rule pos_mod_bound)
  ultimately show ?thesis
    unfolding random_randint_def by linarith
qed

lemma random_randint_onto:
  assumes "a \<le> n" and "n \<le> b"
  shows "\<exists>r. random_randint a b r = n"
proof
  show "random_randint a b (nat (n - a)) = n"
    using assms by (simp add: random_randint_def)
qed

lemma random_random_range: "0 \<le> random_random r \<and> random_random r < 1"
  by (simp add: random_random_def)

subsection \<open>Concrete runs\<close>

lemma report_pdf_allowed: "allowed_file ''report.pdf'' = Inr True"
  by (simp add: allowed_file_def getitem_def lower_def lower_char_def ALLOWED_EXTENSIONS_def
        char_eq_code)

lemma report_exe_refused: "allowed_file ''report.exe'' = Inr False"
  by (simp add: allowed_file_def getitem_def lower_def lower_char_def ALLOWED_EXTENSIONS_def
        char_eq_code)

lemma two_images:
  "extract_images_from_pdf p 6 =
     [\<lparr>page = 0, index = 0, bytes = ''placeholder''\<rparr>,
      \<lparr>page = 0, index = 1, bytes = ''placeholder''\<rparr>]"
  by (simp add: extract_images_from_pdf_def random_randint_def upt_rec)

lemma sample_detection:
  "analyze_image_for_malaria b sample_draws =
     \<lparr>parasite_detected = True, parasite_type = None, confidence = 7 / 10\<rparr>"
  by (simp add: analyze_image_for_malaria_def sample_draws_def random_choice_def
        random_random_def random_uniform_def)

lemma sample_analysis:
  "analyze_malaria_pdf p sample_rng =
     Inr [(''diagnosis'', JStr ''Positive''),
          (''parasites_detected'', JList []),
          (''confidence'', JFloat (7 / 10)),
          (''parasite_count'', JInt 2),
          (''images_analyzed'', JInt 2)]"
  by (simp add: analyze_malaria_pdf_def sample_rng_def two_images analyze_images_def
        fixed_draws_def sample_detection aggregate_positive unique_parasites_def
        parasites_def truthy_def)

lemma sample_upload:
  "fst (analyze_pdf sample_env pdf_request sample_rng empty_disk) =
     Inr \<lparr>status = 200,
          body = JDict [(''success'', JBool True),
                        (''results'',
                           JDict [(''diagnosis'', JStr ''Positive''),
                                  (''parasites_detected'', JList []),
                                  (''confidence'', JFloat (7 / 10)),
                                  (''parasite_count'', JInt 2),
                                  (''images_analyzed'', JInt 2)])]\<rparr>"
  by (simp add: analyze_pdf_def pdf_request_def file_truthy_def report_pdf_allowed
        sample_env_def save_def empty_disk_def sample_analysis)

subsection \<open>Image extraction\<close>

lemma image_count: "1 \<le> nat (random_randint 1 5 r) \<and> nat (random_randint 1 5 r) \<le> 5"
  using random_randint_range [of 1 5 r] by linarith

lemma length_extract: "length (extract_images_from_pdf p r) = nat (random_randint 1 5 r)"
  by (simp add: extract_images_from_pdf_def)

lemma nth_extract:
  "i < length (extract_images_from_pdf p r) \<Longrightarrow>
   extract_images_from_pdf p r ! i = \<lparr>page = 0, index = int i, bytes = ''placeholder''\<rparr>"
  by (simp add: extract_images_from_pdf_def)

lemma analyze_malaria_pdf_count:
  assumes "analyze_malaria_pdf p rnd = Inr results"
  shows "\<exists>n. map_of results ''images_analyzed'' = Some (JInt n) \<and> 1 \<le> n \<and> n \<le> 5"
proof -
  let ?images = "extract_images_from_pdf p (count_draw rnd)"
  have len: "1 \<le> length ?images \<and> length ?images \<le> 5"
    using image_count [of "count_draw rnd"] by (simp add: length_extract)
  then have ne: "?images \<noteq> []"
    by auto
  have "result_get (analyze_images ?images (image_draw rnd)) ''images_analyzed''
          = Some (JInt (int (length ?images)))"
    using ne by (simp add: analyze_images_def aggregate_images_analyzed length_analyze_each)
  with assms have "map_of results ''images_analyzed'' = Some (JInt (int (length ?images)))"
    by (simp add: analyze_malaria_pdf_def result_get_def)
  with len show ?thesis
    by simp
qed

lemma analyze_pdf_success:
  assumes "analyze_pdf cfg req rnd dsk = (Inr resp, dsk')" and "status resp = 200"
  shows "\<exists>p results. analyze_malaria_pdf p rnd = Inr results
           \<and> body resp = JDict [(''success'', JBool True), (''results'', JDict results)]"
  using assms
  by (auto simp: analyze_pdf_def jsonify_error_def Let_def
           split: option.splits if_splits sum.splits bool.splits)

text \<open>
  Claim C5. For every draw the extraction stub returns between 1 and 5 records, and the
  record at position \<open>i\<close> has page 0, index \<open>i\<close> and the placeholder payload. Hence every
  response of the analyze endpoint with status 200 is the success envelope around results
  whose \<open>images_analyzed\<close> is between 1 and 5.
\<close>

theorem extraction_stub:
  "1 \<le> length (extract_images_from_pdf p r) \<and> length (extract_images_from_pdf p r) \<le> 5
   \<and> (\<forall>i < length (extract_images_from_pdf p r).
         extract_images_from_pdf p r ! i = \<lparr>page = 0, index = int i, bytes = ''placeholder''\<rparr>)
   \<and> (analyze_pdf cfg req rnd dsk = (Inr resp, dsk') \<and> status resp = 200 \<longrightarrow>
        (\<exists>results n.
           body resp = JDict [(''success'', JBool True), (''results'', JDict results)]
           \<and> map_of results ''images_analyzed'' = Some (JInt n) \<and> 1 \<le> n \<and> n \<le> 5))"
proof (intro conjI allI impI)
  show "1 \<le> length (extract_images_from_pdf p r)" "length (extract_images_from_pdf p r) \<le> 5"
    using image_count [of r] by (simp_all add: length_extract)
  show "extract_images_from_pdf p r ! i = \<lparr>page = 0, index = int i, bytes = ''placeholder''\<rparr>"
    if "i < length (extract_images_from_pdf p r)" for i
    using that by (rule nth_extract)
  assume "analyze_pdf cfg req rnd dsk = (Inr resp, dsk') \<and> status resp = 200"
  then obtain q results where "analyze_malaria_pdf q rnd = Inr results"
    and "body resp = JDict [(''success'', JBool True), (''results'', JDict results)]"
    using analyze_pdf_success by blast
  with analyze_malaria_pdf_count show "\<exists>results n.
           body resp = JDict [(''success'', JBool True), (''results'', JDict results)]
           \<and> map_of results ''images_analyzed'' = Some (JInt n) \<and> 1 \<le> n \<and> n \<le> 5"
    by blast
qed

text \<open>
  The upload of \<open>report.pdf\<close> with a draw of two images: status 200 and
  \<open>images_analyzed = 2\<close>; the second record has index 1.
\<close>

theorem extraction_stub_witness:
  "fst (analyze_pdf sample_env pdf_request sample_rng empty_disk) =
     Inr \<lparr>status = 200,
          body = JDict [(''success'', JBool True),
                        (''results'',
                           JDict [(''diagnosis'', JStr ''Positive''),
                                  (''parasites_detected'', JList []),
                                  (''confidence'', JFloat (7 / 10)),
                                  (''parasite_count'', JInt 2),
                                  (''images_analyzed'', JInt 2)])]\<rparr>
   \<and> length (extract_images_from_pdf ''report.pdf'' 6) = 2
   \<and> extract_images_from_pdf ''report.pdf'' 6 ! 1
       = \<lparr>page = 0, index = 1, bytes = ''placeholder''\<rparr>"
proof -
  let ?resp = "\<lparr>status = 200,
          body = JDict [(''success'', JBool True),
                        (''results'',
                           JDict [(''diagnosis'', JStr ''Positive''),
                                  (''parasites_detected'', JList []),
                                  (''confidence'', JFloat (7 / 10)),
                                  (''parasite_count'', JInt 2),
                                  (''images_analyzed'', JInt 2)])]\<rparr>"
  let ?after = "snd (analyze_pdf sample_env pdf_request sample_rng empty_disk)"
  have run: "analyze_pdf sample_env pdf_request sample_rng empty_disk = (Inr ?resp, ?after)"
    using sample_upload by (simp add: prod_eq_iff)
  have ok: "status ?resp = 200"
    by simp
  from extraction_stub [where p = "''report.pdf''" and r = 6 and cfg = sample_env
      and req = pdf_request and rnd = sample_rng and dsk = empty_disk and resp = ?resp
      and dsk' = ?after]
  have "length (extract_images_from_pdf ''report.pdf'' 6) \<le> 5"
    and "1 < length (extract_images_from_pdf ''report.pdf'' 6) \<longrightarrow>
         extract_images_from_pdf ''report.pdf'' 6 ! 1
           = \<lparr>page = 0, index = int 1, bytes = ''placeholder''\<rparr>"
    and "\<exists>results n. body ?resp = JDict [(''success'', JBool True), (''results'', JDict results)]
           \<and> map_of results ''images_analyzed'' = Some (JInt n) \<and> 1 \<le> n \<and> n \<le> 5"
    using run ok by blast+
  moreover have "length (extract_images_from_pdf ''report.pdf'' 6) = 2"
    by (simp add: two_images)
  ultimately show ?thesis
    using sample_upload by simp
qed

subsection \<open>Per-image classifier\<close>

text \<open>
  Claim C6. The label draw and the detected draw are independent: some draws give a
  result with a species label and \<open>parasite_detected\<close> false, and some give a result with
  no label and \<open>parasite_detected\<close> true.
\<close>

theorem species_independent_of_detection:
  "(\<exists>dr. parasite_type (analyze_image_for_malaria image_data dr) \<noteq> None
          \<and> parasite_detected (analyze_image_for_malaria image_data dr) = False)
   \<and> (\<exists>dr. parasite_type (analyze_image_for_malaria image_data dr) = None
          \<and> parasite_detected (analyze_image_for_malaria image_data dr) = True)"
proof
  let ?a = "\<lparr>detected_draw = 1, gate_draw = 4503599627370496, type_draw = 0, confidence_draw = 0\<rparr>"
  have "parasite_type (analyze_image_for_malaria image_data ?a) \<noteq> None
          \<and> parasite_detected (analyze_image_for_malaria image_data ?a) = False"
    by (simp add: analyze_image_for_malaria_def random_choice_def random_random_def)
  then show "\<exists>dr. parasite_type (analyze_image_for_malaria image_data dr) \<noteq> None
          \<and> parasite_detected (analyze_image_for_malaria image_data dr) = False" ..
  let ?b = "\<lparr>detected_draw = 0, gate_draw = 0, type_draw = 0, confidence_draw = 0\<rparr>"
  have "parasite_type (analyze_image_for_malaria image_data ?b) = None
          \<and> parasite_detected (analyze_image_for_malaria image_data ?b) = True"
    by (simp add: analyze_image_for_malaria_def random_choice_def random_random_def)
  then show "\<exists>dr. parasite_type (analyze_image_for_malaria image_data dr) = None
          \<and> parasite_detected (analyze_image_for_malaria image_data dr) = True" ..
qed

section \<open>Properties of the analyze endpoint\<close>

text \<open>
  Claim C9. A request without the field \<open>file\<close> is answered 400 \<open>No file part\<close>; one whose
  file has the empty filename, 400 \<open>No file selected\<close>; one whose filename is not empty and
  not accepted by the validator, 400 with the message that the file type is not allowed.
  In each case, and on every response with status 400, the upload directory is as it was
  before the request.
\<close>

theorem analyze_pdf_rejections:
  "(files req ''file'' = None \<longrightarrow>
      analyze_pdf cfg req rnd dsk =
        (Inr \<lparr>status = 400, body = JDict [(''error'', JStr ''No file part'')]\<rparr>, dsk))
   \<and> (files req ''file'' = Some upload \<and> filename upload = [] \<longrightarrow>
      analyze_pdf cfg req rnd dsk =
        (Inr \<lparr>status = 400, body = JDict [(''error'', JStr ''No file selected'')]\<rparr>, dsk))
   \<and> (files req ''file'' = Some upload \<and> filename upload \<noteq> []
        \<and> allowed_file (filename upload) = Inr False \<longrightarrow>
      analyze_pdf cfg req rnd dsk =
        (Inr \<lparr>status = 400,
              body = JDict [(''error'',
                             JStr ''File type not allowed. Please upload a PDF file.'')]\<rparr>,
         dsk))
   \<and> (analyze_pdf cfg req rnd dsk = (Inr resp, dsk') \<and> status resp = 400 \<longrightarrow>
        dsk' = dsk)"
proof (intro conjI impI)
  assume "files req ''file'' = None"
  then show "analyze_pdf cfg req rnd dsk =
        (Inr \<lparr>status = 400, body = JDict [(''error'', JStr ''No file part'')]\<rparr>, dsk)"
    by (simp add: analyze_pdf_def jsonify_error_def)
next
  assume "files req ''file'' = Some upload \<and> filename upload = []"
  then show "analyze_pdf cfg req rnd dsk =
        (Inr \<lparr>status = 400, body = JDict [(''error'', JStr ''No file selected'')]\<rparr>, dsk)"
    by (simp add: analyze_pdf_def jsonify_error_def)
next
  assume "files req ''file'' = Some upload \<and> filename upload \<noteq> []
        \<and> allowed_file (filename upload) = Inr False"
  then show "analyze_pdf cfg req rnd dsk =
        (Inr \<lparr>status = 400,
              body = JDict [(''error'',
                             JStr ''File type not allowed. Please upload a PDF file.'')]\<rparr>,
         dsk)"
    by (simp add: analyze_pdf_def jsonify_error_def file_truthy_def)
next
  assume "analyze_pdf cfg req rnd dsk = (Inr resp, dsk') \<and> status resp = 400"
  then show "dsk' = dsk"
    by (auto simp: analyze_pdf_def jsonify_error_def Let_def
             split: option.splits if_splits sum.splits bool.splits)
qed

text \<open>The three rejections on an empty upload directory, which stays empty.\<close>

theorem analyze_pdf_rejections_witness:
  "analyze_pdf sample_env empty_request sample_rng empty_disk =
     (Inr \<lparr>status = 400, body = JDict [(''error'', JStr ''No file part'')]\<rparr>, empty_disk)
   \<and> analyze_pdf sample_env unnamed_request sample_rng empty_disk =
     (Inr \<lparr>status = 400, body = JDict [(''error'', JStr ''No file selected'')]\<rparr>, empty_disk)
   \<and> analyze_pdf sample_env exe_request sample_rng empty_disk =
     (Inr \<lparr>status = 400,
           body = JDict [(''error'',
                          JStr ''File type not allowed. Please upload a PDF file.'')]\<rparr>,
      empty_disk)"
proof (intro conjI)
  have "files empty_request ''file'' = None"
    by (simp add: empty_request_def)
  with analyze_pdf_rejections [where req = empty_request and cfg = sample_env
      and rnd = sample_rng and dsk = empty_disk]
  show "analyze_pdf sample_env empty_request sample_rng empty_disk =
     (Inr \<lparr>status = 400, body = JDict [(''error'', JStr ''No file part'')]\<rparr>, empty_disk)"
    by blast
  have "files unnamed_request ''file'' = Some \<lparr>filename = [], stream = []\<rparr>
        \<and> filename \<lparr>filename = [], stream = []\<rparr> = []"
    by (simp add: unnamed_request_def)
  with analyze_pdf_rejections [where req = unnamed_request and cfg = sample_env
      and rnd = sample_rng and dsk = empty_disk and upload = "\<lparr>filename = [], stream = []\<rparr>"]
  show "analyze_pdf sample_env unnamed_request sample_rng empty_disk =
     (Inr \<lparr>status = 400, body = JDict [(''error'', JStr ''No file selected'')]\<rparr>, empty_disk)"
    by blast
  have "files exe_request ''file'' = Some \<lparr>filename = ''report.exe'', stream = ''MZ''\<rparr>
        \<and> filename \<lparr>filename = ''report.exe'', stream = ''MZ''\<rparr> \<noteq> []
        \<and> allowed_file (filename \<lparr>filename = ''report.exe'', stream = ''MZ''\<rparr>) = Inr False"
    by (simp add: exe_request_def report_exe_refused)
  with analyze_pdf_rejections [where req = exe_request and cfg = sample_env
      and rnd = sample_rng and dsk = empty_disk
      and upload = "\<lparr>filename = ''report.exe'', stream = ''MZ''\<rparr>"]
  show "analyze_pdf sample_env exe_request sample_rng empty_disk =
     (Inr \<lparr>status = 400,
           body = JDict [(''error'',
                          JStr ''File type not allowed. Please upload a PDF file.'')]\<rparr>,
      empty_disk)"
    by blast
qed

end
